theory Spec2Isabelle
  imports Main "HOL-Library.Char_ord" "HOL-Library.List_Lexorder" "HOL-Library.Sublist"
begin

section \<open>Python values used by the server\<close>

text \<open>
  A Python \<open>str\<close> is modelled as a \<open>string\<close>, one \<open>char\<close> per code point
  (code points below 256), so \<open>length\<close> is Python's \<open>len\<close> and \<open>take\<close>/\<open>drop\<close>
  are Python's slices. Python's unbounded \<open>int\<close> is \<open>int\<close>.
\<close>

subsection \<open>\<open>str(int)\<close>: the decimal rendering an f-string gives an integer\<close>

definition digit_char :: "nat \<Rightarrow> char" where
  "digit_char d = ''0123456789'' ! d"

fun str_nat :: "nat \<Rightarrow> string" where
  "str_nat n = (if n < 10 then [digit_char n] else str_nat (n div 10) @ [digit_char (n mod 10)])"

definition str_int :: "int \<Rightarrow> string" where
  "str_int i = (if i < 0 then ''-'' @ str_nat (nat (- i)) else str_nat (nat i))"

subsection \<open>\<open>"sep".join(parts)\<close>\<close>

fun join :: "string \<Rightarrow> string list \<Rightarrow> string" where
  "join sep [] = []"
| "join sep [x] = x"
| "join sep (x # y # ys) = x @ sep @ join sep (y # ys)"

subsection \<open>Padding and case mapping of \<open>str\<close>\<close>

definition ljust :: "nat \<Rightarrow> string \<Rightarrow> string" where
  "ljust w s = s @ replicate (w - length s) CHR '' ''"

definition rjust :: "nat \<Rightarrow> string \<Rightarrow> string" where
  "rjust w s = replicate (w - length s) CHR '' '' @ s"

definition zfill :: "nat \<Rightarrow> string \<Rightarrow> string" where
  "zfill w s = replicate (w - length s) CHR ''0'' @ s"

text \<open>
  \<open>str.upper\<close> and \<open>str.lower\<close> work character by character on the code points
  below 256. The letters are a-z and A-Z and those of Latin-1: U+00C0 to U+00DE
  without the multiplication sign U+00D7 are capitals, and U+00E0 to U+00FE without
  the division sign U+00F7 are their small letters, 32 code points further. The sharp
  s U+00DF has the two-letter capital SS. Every other character is mapped to itself.
  The capitals of the micro sign U+00B5 and of U+00FF are U+039C and U+0178, which are
  not below 256: a string with one of these two characters has no upper-case form in
  the model, and \<open>upper\<close> is Python's on every other string.
\<close>

definition small_letters :: string where
  "small_letters =
     ''abcdefghijklmnopqrstuvwxyz'' @
     [CHR 0xE0, CHR 0xE1, CHR 0xE2, CHR 0xE3,
      CHR 0xE4, CHR 0xE5, CHR 0xE6, CHR 0xE7, CHR 0xE8, CHR 0xE9, CHR 0xEA, CHR 0xEB,
      CHR 0xEC, CHR 0xED, CHR 0xEE, CHR 0xEF, CHR 0xF0, CHR 0xF1, CHR 0xF2, CHR 0xF3,
      CHR 0xF4, CHR 0xF5, CHR 0xF6, CHR 0xF8, CHR 0xF9, CHR 0xFA, CHR 0xFB, CHR 0xFC,
      CHR 0xFD, CHR 0xFE]"

definition capital_letters :: string where
  "capital_letters =
     ''ABCDEFGHIJKLMNOPQRSTUVWXYZ'' @
     [CHR 0xC0, CHR 0xC1, CHR 0xC2, CHR 0xC3,
      CHR 0xC4, CHR 0xC5, CHR 0xC6, CHR 0xC7, CHR 0xC8, CHR 0xC9, CHR 0xCA, CHR 0xCB,
      CHR 0xCC, CHR 0xCD, CHR 0xCE, CHR 0xCF, CHR 0xD0, CHR 0xD1, CHR 0xD2, CHR 0xD3,
      CHR 0xD4, CHR 0xD5, CHR 0xD6, CHR 0xD8, CHR 0xD9, CHR 0xDA, CHR 0xDB, CHR 0xDC,
      CHR 0xDD, CHR 0xDE]"

definition upper_char :: "char \<Rightarrow> string" where
  "upper_char c =
     (if c = CHR 0xDF then ''SS''
      else case map_of (zip small_letters capital_letters) c of
             None \<Rightarrow> [c]
           | Some u \<Rightarrow> [u])"

definition lower_char :: "char \<Rightarrow> char" where
  "lower_char c =
     (case map_of (zip capital_letters small_letters) c of
        None \<Rightarrow> c
      | Some l \<Rightarrow> l)"

definition upper :: "string \<Rightarrow> string" where
  "upper s = concat (map upper_char s)"

definition lower :: "string \<Rightarrow> string" where
  "lower s = map lower_char s"

text \<open>\<open>x or d\<close> on an optional string: \<open>None\<close> and the empty string are falsy.\<close>

definition str_or :: "string option \<Rightarrow> string \<Rightarrow> string" where
  "str_or x d = (case x of None \<Rightarrow> d | Some s \<Rightarrow> if s = [] then d else s)"

subsection \<open>Exceptions\<close>

text \<open>
  The exceptions (all subclasses of \<open>Exception\<close>) that the modelled code can raise:
  a failed request (\<open>httpx\<close> transport and status errors, a body that is not JSON),
  a missing key of the argument dictionary, and the two arithmetic errors of integer
  true division and of \<open>int\<close> to \<open>float\<close> conversion. \<open>exn_str\<close> is \<open>str(e)\<close>.
\<close>

datatype exn =
    FetchError string
  | KeyError string
  | ZeroDivisionError
  | OverflowError string

fun exn_str :: "exn \<Rightarrow> string" where
  "exn_str (FetchError msg) = msg"
| "exn_str (KeyError k) = [CHR 0x27] @ k @ [CHR 0x27]"
| "exn_str ZeroDivisionError = ''division by zero''"
| "exn_str (OverflowError msg) = msg"

subsection \<open>Floats\<close>

text \<open>
  A finite IEEE 754 double with sign \<open>s\<close>, significand \<open>m\<close> and exponent \<open>e\<close> stands
  for \<open>(-1)^s * m * 2^e\<close>. The code makes floats in one place only, the true division
  of two integers, which CPython rounds correctly (to nearest, ties to even), and it
  prints them with a fixed number of decimals, which is correctly rounded too.
\<close>

datatype pyfloat = PyFloat (is_neg: bool) (mant: nat) (expo: int)

fun bit_length :: "nat \<Rightarrow> nat" where
  "bit_length n = (if n = 0 then 0 else Suc (bit_length (n div 2)))"

text \<open>The integer nearest to \<open>a / b\<close>, the even one of two that are equally near.\<close>

definition round_half_even :: "nat \<Rightarrow> nat \<Rightarrow> nat" where
  "round_half_even a b =
     (let d = a div b; r = a mod b
      in if 2 * r < b then d
         else if b < 2 * r then d + 1
         else if even d then d else d + 1)"

text \<open>The \<open>k\<close> with \<open>2^k \<le> p / q < 2^(k+1)\<close>, for positive \<open>p\<close> and \<open>q\<close>.\<close>

definition floor_log2_ratio :: "nat \<Rightarrow> nat \<Rightarrow> int" where
  "floor_log2_ratio p q =
     (let k = int (bit_length p) - int (bit_length q)
      in if (if 0 \<le> k then q * 2 ^ nat k \<le> p else q \<le> p * 2 ^ nat (- k)) then k else k - 1)"

text \<open>
  \<open>p / q\<close> rounded to a double: 53 bits of significand, exponents from \<open>-1074\<close>
  (subnormal numbers and zero) and an overflow from \<open>2^1024\<close> on.
\<close>

definition round_to_double :: "bool \<Rightarrow> nat \<Rightarrow> nat \<Rightarrow> pyfloat option" where
  "round_to_double s p q =
     (if p = 0 then Some (PyFloat s 0 0)
      else
        let k = floor_log2_ratio p q;
            e = max (k - 52) (- 1074);
            m = (if 0 \<le> e then round_half_even p (q * 2 ^ nat e)
                 else round_half_even (p * 2 ^ nat (- e)) q)
        in if 0 \<le> e \<and> 2 ^ 1024 \<le> m * 2 ^ nat e then None else Some (PyFloat s m e))"


text \<open>\<open>a / b\<close> on integers.\<close>

definition py_truediv :: "int \<Rightarrow> int \<Rightarrow> exn + pyfloat" where
  "py_truediv a b =
     (if b = 0 then Inl ZeroDivisionError
      else case round_to_double ((a < 0) \<noteq> (b < 0)) (nat \<bar>a\<bar>) (nat \<bar>b\<bar>) of
             None \<Rightarrow> Inl (OverflowError ''integer division result too large for a float'')
           | Some x \<Rightarrow> Inr x)"

text \<open>\<open>float(i)\<close>, which formatting an integer with \<open>.Nf\<close> applies first.\<close>

definition float_of_int :: "int \<Rightarrow> exn + pyfloat" where
  "float_of_int i =
     (case round_to_double (i < 0) (nat \<bar>i\<bar>) 1 of
        None \<Rightarrow> Inl (OverflowError ''int too large to convert to float'')
      | Some x \<Rightarrow> Inr x)"

text \<open>\<open>f"{x:.Nf}"\<close> on a float: \<open>N\<close> decimals, the sign kept also when all digits are 0.\<close>

definition format_f :: "nat \<Rightarrow> pyfloat \<Rightarrow> string" where
  "format_f prec x =
     (let n = (if 0 \<le> expo x then mant x * 2 ^ nat (expo x) * 10 ^ prec
               else round_half_even (mant x * 10 ^ prec) (2 ^ nat (- expo x)))
      in (if is_neg x then ''-'' else []) @ str_nat (n div 10 ^ prec) @
         (if prec = 0 then [] else ''.'' @ zfill prec (str_nat (n mod 10 ^ prec))))"

text \<open>A JSON number is an \<open>int\<close> or a \<open>float\<close> in Python.\<close>

datatype number = NInt int | NFloat pyfloat

fun format_number_f :: "nat \<Rightarrow> number \<Rightarrow> exn + string" where
  "format_number_f prec (NFloat x) = Inr (format_f prec x)"
| "format_number_f prec (NInt i) =
     (case float_of_int i of Inl e \<Rightarrow> Inl e | Inr x \<Rightarrow> Inr (format_f prec x))"

text \<open>
  \<open>str(x)\<close> on a number. The shortest decimal that reads back as the same double,
  which is what \<open>str\<close> prints for a float, is not computed here: it is the
  parameter \<open>float_repr\<close>.
\<close>

fun str_number :: "(pyfloat \<Rightarrow> string) \<Rightarrow> number \<Rightarrow> string" where
  "str_number float_repr (NInt i) = str_int i"
| "str_number float_repr (NFloat x) = float_repr x"

section \<open>The JSON records the code reads\<close>

text \<open>
  The upstream API answers with JSON objects, which the code reads with
  \<open>d.get(key, default)\<close>: a key may be absent, so every field is optional, and
  \<open>get_or\<close> supplies the default. The fields are the JSON keys the code reads, typed
  as the client's own models (\<open>TeamInfo\<close>, \<open>GameScore\<close>, \<open>TeamStandings\<close>,
  \<open>PlayerStats\<close>) declare them. A nested lookup
  \<open>d.get("homeTeam", {}).get("abbrev")\<close> is \<open>Option.bind (homeTeam d) abbrev\<close>.
\<close>

definition get_or :: "'a option \<Rightarrow> 'a \<Rightarrow> 'a" where
  "get_or x d = (case x of None \<Rightarrow> d | Some v \<Rightarrow> v)"

record team_info =
  abbrev :: "string option"
  score :: "int option"

text \<open>The key \<open>"id"\<close> is the field \<open>game_id\<close>, the key \<open>"period"\<close> is \<open>game_period\<close>.\<close>

record game =
  gameState :: "string option"
  game_period :: "int option"
  awayTeam :: "team_info option"
  homeTeam :: "team_info option"
  venue :: "string option"
  gameDate :: "string option"
  game_id :: "int option"

text \<open>An object \<open>{"default": "..."}\<close>, as the API gives names and abbreviations.\<close>

record localized =
  default_text :: "string option"

record team_standing =
  teamAbbrev :: "localized option"
  gamesPlayed :: "int option"
  wins :: "int option"
  losses :: "int option"
  otLosses :: "int option"
  points :: "int option"
  goalFor :: "int option"
  goalAgainst :: "int option"
  goalDifferential :: "int option"
  divisionAbbrev :: "string option"
  conferenceAbbrev :: "string option"

text \<open>
  A skater or a goalie of a leaders list; its key \<open>"teamAbbrev"\<close> (a plain string
  here) is the field \<open>leader_team\<close>, its key \<open>"value"\<close> is \<open>leader_value\<close>.
\<close>

record leader =
  firstName :: "localized option"
  lastName :: "localized option"
  leader_team :: "string option"
  position :: "string option"
  leader_value :: "number option"

text \<open>
  A response body. \<open>doc_games\<close> and \<open>doc_standings\<close> are its keys \<open>"games"\<close> and
  \<open>"standings"\<close>, \<open>doc_leaders\<close> looks a category key up, and \<open>doc_json\<close> is the
  text \<open>json.dumps(body, indent=2)\<close> renders for it (the standard library's
  serialiser, a function of the body).
\<close>

record document =
  doc_games :: "game list option"
  doc_standings :: "team_standing list option"
  doc_leaders :: "string \<Rightarrow> leader list option"
  doc_json :: string

section \<open>The API client (nhl\_api.py)\<close>

text \<open>
  \<open>datetime.now()\<close> is the only clock the client reads; the reading is passed in.
  Only the fields the code uses are kept.
\<close>

record clock =
  year :: int
  month :: int
  day :: int

text \<open>\<open>datetime.now().date().isoformat()\<close>: \<open>YYYY-MM-DD\<close>.\<close>

definition isoformat :: "clock \<Rightarrow> string" where
  "isoformat now =
     zfill 4 (str_int (year now)) @ ''-'' @ zfill 2 (str_int (month now)) @ ''-'' @
     zfill 2 (str_int (day now))"

text \<open>
  The network is the function \<open>up\<close>: the \<open>n\<close>-th request of a tool call, for a URL,
  either raises (\<open>client.get\<close>, \<open>raise_for_status\<close> or \<open>response.json\<close> did) or
  gives the parsed body. Each client method is one request; its index is passed in.
\<close>

type_synonym upstream = "nat \<Rightarrow> string \<Rightarrow> exn + document"

definition NHL_API_BASE :: string where
  "NHL_API_BASE = ''https://api-web.nhle.com/v1''"

definition fetch_json :: "upstream \<Rightarrow> nat \<Rightarrow> string \<Rightarrow> exn + document" where
  "fetch_json up n url = up n url"

definition get_todays_scores ::
  "upstream \<Rightarrow> nat \<Rightarrow> clock \<Rightarrow> string option \<Rightarrow> exn + game list" where
  "get_todays_scores up n now date =
     (let date_str = str_or date (isoformat now)
      in case fetch_json up n (NHL_API_BASE @ ''/score/'' @ date_str) of
           Inl e \<Rightarrow> Inl e
         | Inr data \<Rightarrow> Inr (get_or (doc_games data) []))"

definition get_game_details :: "upstream \<Rightarrow> nat \<Rightarrow> int \<Rightarrow> exn + document" where
  "get_game_details up n gid =
     fetch_json up n (NHL_API_BASE @ ''/gamecenter/'' @ str_int gid @ ''/play-by-play'')"

definition get_standings ::
  "upstream \<Rightarrow> nat \<Rightarrow> clock \<Rightarrow> string option \<Rightarrow> exn + document" where
  "get_standings up n now date =
     (let date_str = str_or date (isoformat now)
      in fetch_json up n (NHL_API_BASE @ ''/standings/'' @ date_str))"

definition get_standings_by_season :: "upstream \<Rightarrow> nat \<Rightarrow> string \<Rightarrow> exn + document" where
  "get_standings_by_season up n season =
     fetch_json up n (NHL_API_BASE @ ''/standings/'' @ season)"

text \<open>
  \<^verbatim>\<open>
  def _get_current_season(self) -> str:
      now = datetime.now()
      year = now.year
      month = now.month
      if month >= 10:
          return f"{year}{year + 1}"
      else:
          return f"{year - 1}{year}"
  \<close>
\<close>

definition get_current_season :: "clock \<Rightarrow> string" where
  "get_current_season now =
     (let y = year now; m = month now
      in if m \<ge> 10 then str_int y @ str_int (y + 1)
         else str_int (y - 1) @ str_int y)"

text \<open>
  \<^verbatim>\<open>
  def format_season(self, season: str) -> str:
      if len(season) == 8:
          start_year = season[:4]
          end_year = season[4:8]
          return f"{start_year}-{end_year}"
      return season
  \<close>
  The slice \<open>season[4:8]\<close> is \<open>take 4 (drop 4 season)\<close>.
\<close>

definition format_season :: "string \<Rightarrow> string" where
  "format_season season =
     (if length season = 8
      then (let start_year = take 4 season; end_year = take 4 (drop 4 season)
            in start_year @ ''-'' @ end_year)
      else season)"

definition get_team_schedule ::
  "upstream \<Rightarrow> nat \<Rightarrow> clock \<Rightarrow> string \<Rightarrow> string option \<Rightarrow> exn + document" where
  "get_team_schedule up n now team_abbrev season =
     (let season_str = str_or season (get_current_season now)
      in fetch_json up n
           (NHL_API_BASE @ ''/club-schedule-season/'' @ team_abbrev @ ''/'' @ season_str))"

definition get_schedule ::
  "upstream \<Rightarrow> nat \<Rightarrow> clock \<Rightarrow> string option \<Rightarrow> exn + document" where
  "get_schedule up n now date =
     (let date_str = str_or date (isoformat now)
      in fetch_json up n (NHL_API_BASE @ ''/schedule/'' @ date_str))"

text \<open>
  \<open>get_top_skaters\<close> and \<open>get_top_goalies\<close> ask the current leaders when no season
  is given (\<open>if not season\<close>: \<open>None\<close> or the empty string) and the leaders of the
  season otherwise, and return \<open>data.get(category, [])\<close>.
\<close>

definition get_top_skaters ::
  "upstream \<Rightarrow> nat \<Rightarrow> clock \<Rightarrow> string \<Rightarrow> int \<Rightarrow> string option \<Rightarrow> exn + leader list" where
  "get_top_skaters up n now category limit season =
     (let season_str = str_or season (get_current_season now);
          url = (if str_or season [] = []
                 then NHL_API_BASE @ ''/skater-stats-leaders/current?categories='' @ category @
                      ''&limit='' @ str_int limit
                 else NHL_API_BASE @ ''/skater-stats-leaders/'' @ season_str @
                      ''/2?categories='' @ category @ ''&limit='' @ str_int limit)
      in case fetch_json up n url of
           Inl e \<Rightarrow> Inl e
         | Inr data \<Rightarrow> Inr (get_or (doc_leaders data category) []))"

definition get_top_goalies ::
  "upstream \<Rightarrow> nat \<Rightarrow> clock \<Rightarrow> int \<Rightarrow> string option \<Rightarrow> exn + leader list" where
  "get_top_goalies up n now limit season =
     (let season_str = str_or season (get_current_season now);
          category = ''savePctg'';
          url = (if str_or season [] = []
                 then NHL_API_BASE @ ''/goalie-stats-leaders/current?categories='' @ category @
                      ''&limit='' @ str_int limit
                 else NHL_API_BASE @ ''/goalie-stats-leaders/'' @ season_str @
                      ''/2?categories='' @ category @ ''&limit='' @ str_int limit)
      in case fetch_json up n url of
           Inl e \<Rightarrow> Inl e
         | Inr data \<Rightarrow> Inr (get_or (doc_leaders data category) []))"

definition get_playoff_bracket ::
  "upstream \<Rightarrow> nat \<Rightarrow> clock \<Rightarrow> string option \<Rightarrow> exn + document" where
  "get_playoff_bracket up n now season =
     (let y = str_or season (str_int (year now))
      in fetch_json up n (NHL_API_BASE @ ''/playoff-bracket/'' @ y))"

definition get_team_stats ::
  "upstream \<Rightarrow> nat \<Rightarrow> clock \<Rightarrow> string \<Rightarrow> string option \<Rightarrow> exn + document" where
  "get_team_stats up n now team_abbrev season =
     (let season_str = str_or season (get_current_season now)
      in fetch_json up n
           (NHL_API_BASE @ ''/club-stats/'' @ team_abbrev @ ''/'' @ season_str @ ''/2''))"

section \<open>The formatters (server.py)\<close>

definition format_game_score :: "game \<Rightarrow> string" where
  "format_game_score g =
     (let game_state = get_or (gameState g) [];
          period = get_or (game_period g) 0;
          status =
            (if game_state = ''LIVE'' \<or> game_state = ''CRIT''
               then ''LIVE - Period '' @ str_int period
             else if game_state = ''FUT'' then ''Scheduled''
             else if game_state = ''FINAL'' \<or> game_state = ''OFF'' then ''Final''
             else game_state);
          away_team = awayTeam g;
          home_team = homeTeam g
      in get_or (Option.bind away_team abbrev) [] @ '' '' @
         str_int (get_or (Option.bind away_team score) 0) @ '' @ '' @
         get_or (Option.bind home_team abbrev) [] @ '' '' @
         str_int (get_or (Option.bind home_team score) 0) @ '' - '' @ status @ ''\<newline>'' @
         ''Venue: '' @ get_or (venue g) [] @ ''\<newline>'' @
         ''Date: '' @ get_or (gameDate g) [] @ ''\<newline>'' @
         ''Game ID: '' @ (case game_id g of None \<Rightarrow> [] | Some i \<Rightarrow> str_int i))"

text \<open>
  The tables start from the header and the separator line and add one row per record:
  \<open>result += row\<close> in a \<open>for\<close> loop is a left fold.
\<close>

definition standings_row :: "team_standing \<Rightarrow> string" where
  "standings_row team =
     (let team_name = ljust 4 (get_or (Option.bind (teamAbbrev team) default_text) []);
          gp = rjust 3 (str_int (get_or (gamesPlayed team) 0));
          w = rjust 2 (str_int (get_or (wins team) 0));
          l = rjust 2 (str_int (get_or (losses team) 0));
          ot = rjust 2 (str_int (get_or (otLosses team) 0));
          pts = rjust 3 (str_int (get_or (points team) 0));
          gf = rjust 3 (str_int (get_or (goalFor team) 0));
          ga = rjust 3 (str_int (get_or (goalAgainst team) 0));
          diff = rjust 4 (str_int (get_or (goalDifferential team) 0));
          dv = get_or (divisionAbbrev team) []
      in team_name @ '' | '' @ gp @ '' | '' @ w @ '' | '' @ l @ '' | '' @ ot @ '' | '' @
         pts @ '' | '' @ gf @ '' | '' @ ga @ '' | '' @ diff @ '' | '' @ dv @ ''\<newline>'')"

definition format_standings :: "team_standing list \<Rightarrow> string" where
  "format_standings standings =
     foldl (\<lambda>result team. result @ standings_row team)
       (''Team | GP | W | L | OT | PTS | GF | GA | DIFF | Div\<newline>'' @
        replicate 70 CHR ''-'' @ ''\<newline>'')
       standings"

definition player_row :: "(pyfloat \<Rightarrow> string) \<Rightarrow> nat \<times> leader \<Rightarrow> string" where
  "player_row float_repr ip =
     (let index = fst ip; player = snd ip;
          first_name = get_or (Option.bind (firstName player) default_text) [];
          last_name = get_or (Option.bind (lastName player) default_text) [];
          name = first_name @ '' '' @ last_name;
          display_name = ljust 25 (take 25 name);
          team = ljust 4 (get_or (leader_team player) []);
          pos = ljust 2 (get_or (position player) []);
          val = rjust 4 (str_number float_repr (get_or (leader_value player) (NInt 0)));
          rank = rjust 3 (str_int (int index + 1))
      in rank @ '' | '' @ display_name @ '' | '' @ team @ '' | '' @ pos @ '' | '' @ val @
         ''\<newline>'')"

definition format_player_stats :: "(pyfloat \<Rightarrow> string) \<Rightarrow> leader list \<Rightarrow> string \<Rightarrow> string" where
  "format_player_stats float_repr players category =
     foldl (\<lambda>result ip. result @ player_row float_repr ip)
       (''Rank | Player | Team | Pos | '' @ upper category @ ''\<newline>'' @
        replicate 60 CHR ''-'' @ ''\<newline>'')
       (enumerate 0 players)"

text \<open>
  A goalie's value is printed with three decimals when the category is \<open>savePctg\<close>;
  \<open>f"{value:.3f}"\<close> converts an integer value to a float first, which raises
  \<open>OverflowError\<close> on an integer beyond the doubles. The loop stops at the first row
  that raises.
\<close>

definition goalie_row ::
  "(pyfloat \<Rightarrow> string) \<Rightarrow> string \<Rightarrow> nat \<times> leader \<Rightarrow> exn + string" where
  "goalie_row float_repr category ig =
     (let index = fst ig; goalie = snd ig;
          first_name = get_or (Option.bind (firstName goalie) default_text) [];
          last_name = get_or (Option.bind (lastName goalie) default_text) [];
          name = first_name @ '' '' @ last_name;
          display_name = ljust 25 (take 25 name);
          team = ljust 4 (get_or (leader_team goalie) []);
          val = get_or (leader_value goalie) (NInt 0)
      in case (if category = ''savePctg'' then format_number_f 3 val
               else Inr (str_number float_repr val)) of
           Inl e \<Rightarrow> Inl e
         | Inr value_str \<Rightarrow>
             (let rank = rjust 3 (str_int (int index + 1))
              in Inr (rank @ '' | '' @ display_name @ '' | '' @ team @ '' | '' @ value_str @
                      ''\<newline>'')))"

fun goalie_rows ::
  "(pyfloat \<Rightarrow> string) \<Rightarrow> string \<Rightarrow> string \<Rightarrow> (nat \<times> leader) list \<Rightarrow> exn + string" where
  "goalie_rows float_repr category result [] = Inr result"
| "goalie_rows float_repr category result (ig # rest) =
     (case goalie_row float_repr category ig of
        Inl e \<Rightarrow> Inl e
      | Inr row \<Rightarrow> goalie_rows float_repr category (result @ row) rest)"

definition format_goalie_stats ::
  "(pyfloat \<Rightarrow> string) \<Rightarrow> leader list \<Rightarrow> string \<Rightarrow> exn + string" where
  "format_goalie_stats float_repr goalies category =
     goalie_rows float_repr category
       (''Rank | Goalie | Team | '' @ upper category @ ''\<newline>'' @
        replicate 60 CHR ''-'' @ ''\<newline>'')
       (enumerate 0 goalies)"

section \<open>The analytics helpers (server.py)\<close>

subsection \<open>\<open>analyze_streak\<close>\<close>

text \<open>\<open>g.get("gameState") in ("OFF", "FINAL")\<close>\<close>

definition is_completed :: "game \<Rightarrow> bool" where
  "is_completed g = (gameState g = Some ''OFF'' \<or> gameState g = Some ''FINAL'')"

text \<open>
  \<open>completed_games.sort(key=lambda x: x.get("gameDate", ""), reverse=True)\<close>:
  a stable sort on the date strings (compared code point by code point), in
  descending order; games of equal date keep their order. A stable ascending sort of
  the reversed list, reversed, is that list.
\<close>

definition sort_by_date_desc :: "game list \<Rightarrow> game list" where
  "sort_by_date_desc gs = rev (sort_key (\<lambda>x. get_or (gameDate x) []) (rev gs))"

text \<open>The values the loop body computes from a game, for the team asked about.\<close>

definition is_home :: "string \<Rightarrow> game \<Rightarrow> bool" where
  "is_home team_abbrev g = (Option.bind (homeTeam g) abbrev = Some team_abbrev)"

definition team_score :: "string \<Rightarrow> game \<Rightarrow> int" where
  "team_score team_abbrev g =
     (if is_home team_abbrev g then get_or (Option.bind (homeTeam g) score) 0
      else get_or (Option.bind (awayTeam g) score) 0)"

definition opp_score :: "string \<Rightarrow> game \<Rightarrow> int" where
  "opp_score team_abbrev g =
     (if is_home team_abbrev g then get_or (Option.bind (awayTeam g) score) 0
      else get_or (Option.bind (homeTeam g) score) 0)"

definition opp_team :: "string \<Rightarrow> game \<Rightarrow> string" where
  "opp_team team_abbrev g =
     (if is_home team_abbrev g then get_or (Option.bind (awayTeam g) abbrev) []
      else get_or (Option.bind (homeTeam g) abbrev) [])"

definition won :: "string \<Rightarrow> game \<Rightarrow> bool" where
  "won team_abbrev g = (opp_score team_abbrev g < team_score team_abbrev g)"

definition game_result :: "string \<Rightarrow> game \<Rightarrow> string" where
  "game_result team_abbrev g = (if won team_abbrev g then ''W'' else ''L'')"

definition result_line :: "string \<Rightarrow> game \<Rightarrow> string" where
  "result_line team_abbrev g =
     game_result team_abbrev g @ '' '' @ str_int (team_score team_abbrev g) @ ''-'' @
     str_int (opp_score team_abbrev g) @ '' vs '' @ opp_team team_abbrev g"

text \<open>
  The \<open>for\<close> loop over the completed games, on the state \<open>(streak_count, streak_type,
  recent_results)\<close>: the line of the game is appended first; then the streak is seeded
  or extended, or the loop breaks at a result that differs; after a game that counted,
  the loop breaks once ten lines are recorded.
\<close>

fun streak_loop ::
  "string \<Rightarrow> game list \<Rightarrow> int \<times> string \<times> string list \<Rightarrow> int \<times> string \<times> string list" where
  "streak_loop team_abbrev [] st = st"
| "streak_loop team_abbrev (g # rest) (streak_count, streak_type, recent_results) =
     (let result = game_result team_abbrev g;
          recent = recent_results @ [result_line team_abbrev g]
      in if streak_count = 0 then
           (if 10 \<le> length recent then (1, result, recent)
            else streak_loop team_abbrev rest (1, result, recent))
         else if result = streak_type then
           (if 10 \<le> length recent then (streak_count + 1, streak_type, recent)
            else streak_loop team_abbrev rest (streak_count + 1, streak_type, recent))
         else (streak_count, streak_type, recent))"

definition streak_report :: "string \<Rightarrow> int \<times> string \<times> string list \<Rightarrow> string" where
  "streak_report team_abbrev st =
     (case st of (streak_count, streak_type, recent_results) \<Rightarrow>
        (let streak_text =
               (if streak_type = ''W'' then str_int streak_count @ '' game winning streak''
                else str_int streak_count @ '' game losing streak'')
         in team_abbrev @ '' Current Streak: '' @ streak_text @ ''\<newline>\<newline>'' @
            ''Last 10 games:\<newline>'' @ join ''\<newline>'' recent_results))"

text \<open>The body of the \<open>try\<close>, and the helper with its \<open>except Exception\<close>.\<close>

definition analyze_streak_body :: "upstream \<Rightarrow> clock \<Rightarrow> string \<Rightarrow> exn + string" where
  "analyze_streak_body up now team_abbrev =
     (case get_team_schedule up 0 now team_abbrev None of
        Inl e \<Rightarrow> Inl e
      | Inr schedule \<Rightarrow>
          (let gs = get_or (doc_games schedule) []
           in if gs = [] then Inr (''No games found for '' @ team_abbrev)
              else
                (let completed_games = sort_by_date_desc (filter is_completed gs)
                 in if completed_games = []
                    then Inr (''No completed games found for '' @ team_abbrev @ '' this season'')
                    else Inr (streak_report team_abbrev
                                (streak_loop team_abbrev completed_games (0, [], []))))))"

definition analyze_streak :: "upstream \<Rightarrow> clock \<Rightarrow> string \<Rightarrow> string" where
  "analyze_streak up now team_abbrev =
     (case analyze_streak_body up now team_abbrev of
        Inl e \<Rightarrow> ''Error analyzing streak: '' @ exn_str e
      | Inr s \<Rightarrow> s)"

subsection \<open>\<open>compare_teams_head_to_head\<close>\<close>

definition is_matchup :: "string \<Rightarrow> string \<Rightarrow> game \<Rightarrow> bool" where
  "is_matchup team1 team2 g =
     ((Option.bind (homeTeam g) abbrev = Some team1 \<and>
       Option.bind (awayTeam g) abbrev = Some team2) \<or>
      (Option.bind (homeTeam g) abbrev = Some team2 \<and>
       Option.bind (awayTeam g) abbrev = Some team1))"

definition team1_score :: "string \<Rightarrow> game \<Rightarrow> int" where
  "team1_score team1 g =
     (if Option.bind (homeTeam g) abbrev = Some team1
      then get_or (Option.bind (homeTeam g) score) 0
      else get_or (Option.bind (awayTeam g) score) 0)"

definition team2_score :: "string \<Rightarrow> game \<Rightarrow> int" where
  "team2_score team1 g =
     (if Option.bind (homeTeam g) abbrev = Some team1
      then get_or (Option.bind (awayTeam g) score) 0
      else get_or (Option.bind (homeTeam g) score) 0)"

text \<open>The text both the WIN lines and the IN PROGRESS line start with.\<close>

definition score_text :: "string \<Rightarrow> string \<Rightarrow> game \<Rightarrow> string" where
  "score_text team1 team2 g =
     get_or (gameDate g) [] @ '': '' @ team1 @ '' '' @ str_int (team1_score team1 g) @ '', '' @
     team2 @ '' '' @ str_int (team2_score team1 g)"

text \<open>
  The \<open>for\<close> loop over the matchups, on the state \<open>(team1_wins, team2_wins, results)\<close>.
\<close>

fun matchup_loop ::
  "string \<Rightarrow> string \<Rightarrow> game list \<Rightarrow> int \<times> int \<times> string list \<Rightarrow> int \<times> int \<times> string list" where
  "matchup_loop team1 team2 [] st = st"
| "matchup_loop team1 team2 (g # rest) (team1_wins, team2_wins, results) =
     (let game_state = get_or (gameState g) []
      in if game_state = ''OFF'' \<or> game_state = ''FINAL'' then
           (if team2_score team1 g < team1_score team1 g then
              matchup_loop team1 team2 rest
                (team1_wins + 1, team2_wins,
                 results @ [score_text team1 team2 g @ '' - '' @ team1 @ '' WIN''])
            else
              matchup_loop team1 team2 rest
                (team1_wins, team2_wins + 1,
                 results @ [score_text team1 team2 g @ '' - '' @ team2 @ '' WIN'']))
         else if game_state = ''FUT'' then
           matchup_loop team1 team2 rest
             (team1_wins, team2_wins, results @ [get_or (gameDate g) [] @ '': Upcoming game''])
         else
           matchup_loop team1 team2 rest
             (team1_wins, team2_wins, results @ [score_text team1 team2 g @ '' - IN PROGRESS'']))"

text \<open>The line the loop body appends for a game, as a function of the game.\<close>

definition matchup_line :: "string \<Rightarrow> string \<Rightarrow> game \<Rightarrow> string" where
  "matchup_line team1 team2 g =
     (let game_state = get_or (gameState g) []
      in if game_state = ''OFF'' \<or> game_state = ''FINAL'' then
           (if team2_score team1 g < team1_score team1 g
            then score_text team1 team2 g @ '' - '' @ team1 @ '' WIN''
            else score_text team1 team2 g @ '' - '' @ team2 @ '' WIN'')
         else if game_state = ''FUT'' then get_or (gameDate g) [] @ '': Upcoming game''
         else score_text team1 team2 g @ '' - IN PROGRESS'')"

definition head_to_head_report ::
  "string \<Rightarrow> string \<Rightarrow> int \<times> int \<times> string list \<Rightarrow> string" where
  "head_to_head_report team1 team2 st =
     (case st of (team1_wins, team2_wins, results) \<Rightarrow>
        ''Head-to-Head: '' @ team1 @ '' vs '' @ team2 @ ''\<newline>\<newline>'' @
        ''Season Series: '' @ team1 @ '' '' @ str_int team1_wins @ ''-'' @ str_int team2_wins @
        '' '' @ team2 @ ''\<newline>\<newline>'' @
        ''Games:\<newline>'' @ join ''\<newline>'' results)"

definition compare_teams_body ::
  "upstream \<Rightarrow> clock \<Rightarrow> string \<Rightarrow> string \<Rightarrow> string option \<Rightarrow> exn + string" where
  "compare_teams_body up now team1 team2 season =
     (case get_team_schedule up 0 now team1 season of
        Inl e \<Rightarrow> Inl e
      | Inr schedule1 \<Rightarrow>
          (let gs = get_or (doc_games schedule1) []
           in if gs = [] then Inr (''No schedule data found for '' @ team1)
              else
                (let matchups = filter (is_matchup team1 team2) gs
                 in if matchups = []
                    then Inr (''No matchups found between '' @ team1 @ '' and '' @ team2 @
                              '' this season'')
                    else Inr (head_to_head_report team1 team2
                                (matchup_loop team1 team2 matchups (0, 0, []))))))"

definition compare_teams_head_to_head ::
  "upstream \<Rightarrow> clock \<Rightarrow> string \<Rightarrow> string \<Rightarrow> string option \<Rightarrow> string" where
  "compare_teams_head_to_head up now team1 team2 season =
     (case compare_teams_body up now team1 team2 season of
        Inl e \<Rightarrow> ''Error comparing teams: '' @ exn_str e
      | Inr s \<Rightarrow> s)"

subsection \<open>\<open>compare_seasons\<close>\<close>

definition total_goals :: "team_standing list \<Rightarrow> int" where
  "total_goals teams = sum_list (map (\<lambda>t. get_or (goalFor t) 0) teams)"

definition total_games :: "team_standing list \<Rightarrow> int" where
  "total_games teams = sum_list (map (\<lambda>t. get_or (gamesPlayed t) 0) teams)"

text \<open>
  \<open>avg_goals = total_goals / total_games if total_games > 0 else 0\<close>:
  a float, or the integer 0.
\<close>

definition avg_goals :: "team_standing list \<Rightarrow> exn + number" where
  "avg_goals teams =
     (if 0 < total_games teams
      then (case py_truediv (total_goals teams) (total_games teams) of
              Inl e \<Rightarrow> Inl e
            | Inr x \<Rightarrow> Inr (NFloat x))
      else Inr (NInt 0))"


text \<open>The block of one season in league-wide mode, from the standings fetched for it.\<close>

definition league_block :: "string \<Rightarrow> document \<Rightarrow> exn + string" where
  "league_block season standings_data =
     (let teams = get_or (doc_standings standings_data) []
      in case avg_goals teams of
           Inl e \<Rightarrow> Inl e
         | Inr avg \<Rightarrow>
             (case format_number_f 2 avg of
                Inl e \<Rightarrow> Inl e
              | Inr avg_text \<Rightarrow>
                  Inr (''Season '' @ format_season season @ '':\<newline>'' @
                       ''  Total teams: '' @ str_int (int (length teams)) @ ''\<newline>'' @
                       ''  Total goals: '' @ str_int (total_goals teams) @ ''\<newline>'' @
                       ''  Avg goals/game: '' @ avg_text)))"

text \<open>
  The block of one season in per-team mode. \<open>next((t for t in teams if ...), None)\<close>
  is \<open>find\<close>; a record that was found is a non-empty dictionary, so \<open>if team\<close> holds.
\<close>

definition team_block :: "string \<Rightarrow> string \<Rightarrow> document \<Rightarrow> string" where
  "team_block team_abbrev season standings_data =
     (let teams = get_or (doc_standings standings_data) []
      in case find (\<lambda>t. Option.bind (teamAbbrev t) default_text = Some team_abbrev) teams of
           Some team \<Rightarrow>
             format_season season @ '' - '' @ team_abbrev @ '':\<newline>'' @
             ''  Record: '' @ str_int (get_or (wins team) 0) @ ''-'' @
               str_int (get_or (losses team) 0) @ ''-'' @
               str_int (get_or (otLosses team) 0) @ ''\<newline>'' @
             ''  Points: '' @ str_int (get_or (points team) 0) @ ''\<newline>'' @
             ''  Goals For: '' @ str_int (get_or (goalFor team) 0) @ ''\<newline>'' @
             ''  Goals Against: '' @ str_int (get_or (goalAgainst team) 0) @ ''\<newline>'' @
             ''  Goal Diff: '' @ str_int (get_or (goalDifferential team) 0)
         | None \<Rightarrow> format_season season @ '' - '' @ team_abbrev @ '': No data found'')"

text \<open>
  The two \<open>for season in seasons\<close> loops: request \<open>n\<close> fetches the standings of the
  season, its block is appended to \<open>results\<close>, and an exception ends the loop.
\<close>

fun league_loop :: "upstream \<Rightarrow> nat \<Rightarrow> string list \<Rightarrow> string list \<Rightarrow> exn + string list" where
  "league_loop up n [] results = Inr results"
| "league_loop up n (season # rest) results =
     (case get_standings_by_season up n season of
        Inl e \<Rightarrow> Inl e
      | Inr standings_data \<Rightarrow>
          (case league_block season standings_data of
             Inl e \<Rightarrow> Inl e
           | Inr block \<Rightarrow> league_loop up (Suc n) rest (results @ [block])))"

fun team_loop ::
  "upstream \<Rightarrow> string \<Rightarrow> nat \<Rightarrow> string list \<Rightarrow> string list \<Rightarrow> exn + string list" where
  "team_loop up team_abbrev n [] results = Inr results"
| "team_loop up team_abbrev n (season # rest) results =
     (case get_standings_by_season up n season of
        Inl e \<Rightarrow> Inl e
      | Inr standings_data \<Rightarrow>
          team_loop up team_abbrev (Suc n) rest
            (results @ [team_block team_abbrev season standings_data]))"

text \<open>\<open>if not team_abbrev\<close> holds for \<open>None\<close> and for the empty string.\<close>

definition compare_seasons_body ::
  "upstream \<Rightarrow> string list \<Rightarrow> string option \<Rightarrow> exn + string" where
  "compare_seasons_body up seasons team_abbrev =
     (if str_or team_abbrev [] = [] then
        (case league_loop up 0 seasons [] of
           Inl e \<Rightarrow> Inl e
         | Inr results \<Rightarrow>
             Inr (''Season Comparison:\<newline>\<newline>'' @ join ''\<newline>\<newline>'' results))
      else
        (case team_loop up (str_or team_abbrev []) 0 seasons [] of
           Inl e \<Rightarrow> Inl e
         | Inr results \<Rightarrow>
             Inr (''Season Comparison for '' @ str_or team_abbrev [] @ '':\<newline>\<newline>'' @
                  join ''\<newline>\<newline>'' results)))"

definition compare_seasons :: "upstream \<Rightarrow> string list \<Rightarrow> string option \<Rightarrow> string" where
  "compare_seasons up seasons team_abbrev =
     (case compare_seasons_body up seasons team_abbrev of
        Inl e \<Rightarrow> ''Error comparing seasons: '' @ exn_str e
      | Inr s \<Rightarrow> s)"

section \<open>The tool dispatcher (server.py)\<close>

text \<open>
  The argument dictionary of a tool call, with the keys and types the tool catalogue
  \<open>TOOLS\<close> declares (\<open>string\<close>, \<open>number\<close>, array of strings). Any key may be absent:
  \<open>arguments.get(key)\<close> reads the field, \<open>key in arguments\<close> asks whether it is
  there, and \<open>arguments[key]\<close> raises \<open>KeyError\<close> when it is not.
\<close>

record arguments =
  arg_date :: "string option"
  arg_gameId :: "int option"
  arg_division :: "string option"
  arg_conference :: "string option"
  arg_teamAbbrev :: "string option"
  arg_season :: "string option"
  arg_category :: "string option"
  arg_limit :: "int option"
  arg_team1 :: "string option"
  arg_team2 :: "string option"
  arg_seasons :: "string list option"

definition subscript :: "string \<Rightarrow> 'a option \<Rightarrow> exn + 'a" where
  "subscript key x = (case x of None \<Rightarrow> Inl (KeyError key) | Some v \<Rightarrow> Inr v)"

text \<open>\<open>TextContent(type=..., text=...)\<close>\<close>

datatype text_content = TextContent (content_type: string) (content_text: string)

definition text_result :: "string \<Rightarrow> text_content list" where
  "text_result s = [TextContent ''text'' s]"

text \<open>The body of the \<open>try\<close> of \<open>call_tool\<close>, one branch per tool name.\<close>

definition call_tool_body ::
  "(pyfloat \<Rightarrow> string) \<Rightarrow> upstream \<Rightarrow> clock \<Rightarrow> string \<Rightarrow> arguments \<Rightarrow>
   exn + text_content list" where
  "call_tool_body float_repr up now name args =
     (if name = ''get_live_games'' then
        (case get_todays_scores up 0 now (arg_date args) of
           Inl e \<Rightarrow> Inl e
         | Inr gs \<Rightarrow>
             if gs = [] then Inr (text_result ''No games scheduled for this date'')
             else Inr (text_result (join ''\<newline>\<newline>'' (map format_game_score gs))))
      else if name = ''get_game_details'' then
        (case subscript ''gameId'' (arg_gameId args) of
           Inl e \<Rightarrow> Inl e
         | Inr gid \<Rightarrow>
             (case get_game_details up 0 gid of
                Inl e \<Rightarrow> Inl e
              | Inr details \<Rightarrow> Inr (text_result (doc_json details))))
      else if name = ''get_standings'' then
        (case get_standings up 0 now (arg_date args) of
           Inl e \<Rightarrow> Inl e
         | Inr standings_data \<Rightarrow>
             (let filtered = get_or (doc_standings standings_data) [];
                  filtered =
                    (case arg_division args of
                       None \<Rightarrow> filtered
                     | Some d \<Rightarrow>
                         (let division = lower d
                          in filter (\<lambda>t. lower (get_or (divisionAbbrev t) []) = division)
                               filtered));
                  filtered =
                    (case arg_conference args of
                       None \<Rightarrow> filtered
                     | Some c \<Rightarrow>
                         (let conference = lower c
                          in filter (\<lambda>t. lower (get_or (conferenceAbbrev t) []) = conference)
                               filtered))
              in Inr (text_result (format_standings filtered))))
      else if name = ''get_team_stats'' then
        (case subscript ''teamAbbrev'' (arg_teamAbbrev args) of
           Inl e \<Rightarrow> Inl e
         | Inr team_abbrev \<Rightarrow>
             (case get_team_stats up 0 now team_abbrev (arg_season args) of
                Inl e \<Rightarrow> Inl e
              | Inr stats \<Rightarrow> Inr (text_result (doc_json stats))))
      else if name = ''get_player_stats'' then
        (let category = get_or (arg_category args) ''points''
         in case get_top_skaters up 0 now category (get_or (arg_limit args) 20)
                   (arg_season args) of
              Inl e \<Rightarrow> Inl e
            | Inr players \<Rightarrow>
                Inr (text_result (format_player_stats float_repr players category)))
      else if name = ''get_goalie_stats'' then
        (case get_top_goalies up 0 now (get_or (arg_limit args) 20) (arg_season args) of
           Inl e \<Rightarrow> Inl e
         | Inr goalies \<Rightarrow>
             (case format_goalie_stats float_repr goalies ''savePctg'' of
                Inl e \<Rightarrow> Inl e
              | Inr formatted \<Rightarrow> Inr (text_result formatted)))
      else if name = ''get_schedule'' then
        (case (case arg_teamAbbrev args of
                 Some team_abbrev \<Rightarrow> get_team_schedule up 0 now team_abbrev (arg_season args)
               | None \<Rightarrow> get_schedule up 0 now (arg_date args)) of
           Inl e \<Rightarrow> Inl e
         | Inr schedule \<Rightarrow> Inr (text_result (doc_json schedule)))
      else if name = ''get_playoff_bracket'' then
        (case get_playoff_bracket up 0 now (arg_season args) of
           Inl e \<Rightarrow> Inl e
         | Inr bracket \<Rightarrow> Inr (text_result (doc_json bracket)))
      else if name = ''compare_teams'' then
        (case subscript ''team1'' (arg_team1 args) of
           Inl e \<Rightarrow> Inl e
         | Inr team1 \<Rightarrow>
             (case subscript ''team2'' (arg_team2 args) of
                Inl e \<Rightarrow> Inl e
              | Inr team2 \<Rightarrow>
                  Inr (text_result
                         (compare_teams_head_to_head up now team1 team2 (arg_season args)))))
      else if name = ''get_team_streak'' then
        (case subscript ''teamAbbrev'' (arg_teamAbbrev args) of
           Inl e \<Rightarrow> Inl e
         | Inr team_abbrev \<Rightarrow> Inr (text_result (analyze_streak up now team_abbrev)))
      else if name = ''compare_seasons'' then
        (case subscript ''seasons'' (arg_seasons args) of
           Inl e \<Rightarrow> Inl e
         | Inr seasons \<Rightarrow>
             Inr (text_result (compare_seasons up seasons (arg_teamAbbrev args))))
      else Inr (text_result (''Unknown tool: '' @ name)))"

text \<open>
  \<open>call_tool\<close>: what the transport receives. \<open>except Exception as e\<close> turns an
  exception of the body into a text.
\<close>

definition call_tool ::
  "(pyfloat \<Rightarrow> string) \<Rightarrow> upstream \<Rightarrow> clock \<Rightarrow> string \<Rightarrow> arguments \<Rightarrow> text_content list" where
  "call_tool float_repr up now name args =
     (case call_tool_body float_repr up now name args of
        Inl e \<Rightarrow> text_result (''Error executing '' @ name @ '': '' @ exn_str e)
      | Inr r \<Rightarrow> r)"

section \<open>Example inputs\<close>

text \<open>
  A response body that holds a schedule, and a game given by its state, its date and
  the abbreviation and score of the home team and of the away team.
\<close>

definition schedule_of :: "game list \<Rightarrow> document" where
  "schedule_of gs =
     \<lparr>doc_games = Some gs, doc_standings = None, doc_leaders = (\<lambda>k. None), doc_json = []\<rparr>"

definition mk_game :: "string \<Rightarrow> string \<Rightarrow> string \<Rightarrow> int \<Rightarrow> string \<Rightarrow> int \<Rightarrow> game" where
  "mk_game st d h hs a as =
     \<lparr>gameState = Some st, game_period = None,
      awayTeam = Some \<lparr>abbrev = Some a, score = Some as\<rparr>,
      homeTeam = Some \<lparr>abbrev = Some h, score = Some hs\<rparr>,
      venue = None, gameDate = Some d, game_id = None\<rparr>"

text \<open>A clock reading: 10 October 2024.\<close>

definition a_clock :: clock where
  "a_clock = \<lparr>year = 2024, month = 10, day = 10\<rparr>"

text \<open>
  A schedule of team AAA, not in date order, with one game still to play: by date,
  most recent first, the completed games are a win, a win and a loss.
\<close>

definition wwl_schedule :: document where
  "wwl_schedule =
     schedule_of
       [mk_game ''OFF'' ''2024-10-01'' ''AAA'' 0 ''BBB'' 2,
        mk_game ''FUT'' ''2024-10-09'' ''AAA'' 0 ''BBB'' 0,
        mk_game ''FINAL'' ''2024-10-03'' ''AAA'' 3 ''BBB'' 2,
        mk_game ''OFF'' ''2024-10-02'' ''CCC'' 1 ''AAA'' 4]"

text \<open>Three completed games of AAA, most recent first: a win, a loss, a win.\<close>

definition wlw_schedule :: document where
  "wlw_schedule =
     schedule_of
       [mk_game ''FINAL'' ''2024-10-03'' ''AAA'' 3 ''BBB'' 2,
        mk_game ''FINAL'' ''2024-10-02'' ''AAA'' 1 ''BBB'' 4,
        mk_game ''FINAL'' ''2024-10-01'' ''AAA'' 5 ''CCC'' 1]"

text \<open>
  A schedule of TOR: it wins 3-2 at home against MTL, plays BOS, then loses 1-4 at
  MTL (listed with an earlier date, so the schedule is not in date order).
\<close>

definition tor_schedule :: document where
  "tor_schedule =
     schedule_of
       [mk_game ''OFF'' ''2024-11-05'' ''TOR'' 3 ''MTL'' 2,
        mk_game ''OFF'' ''2024-11-07'' ''BOS'' 2 ''TOR'' 5,
        mk_game ''FINAL'' ''2024-10-12'' ''MTL'' 4 ''TOR'' 1]"

text \<open>A response body that holds standings, and a standings record.\<close>

definition standings_of :: "team_standing list \<Rightarrow> document" where
  "standings_of ts =
     \<lparr>doc_games = None, doc_standings = Some ts, doc_leaders = (\<lambda>k. None), doc_json = []\<rparr>"

definition mk_standing :: "string \<Rightarrow> int \<Rightarrow> int \<Rightarrow> int \<Rightarrow> int \<Rightarrow> int \<Rightarrow> int \<Rightarrow> team_standing" where
  "mk_standing ab gp w l ot gf ga =
     \<lparr>teamAbbrev = Some \<lparr>default_text = Some ab\<rparr>, gamesPlayed = Some gp, wins = Some w,
      losses = Some l, otLosses = Some ot, points = Some (2 * w + ot), goalFor = Some gf,
      goalAgainst = Some ga, goalDifferential = Some (gf - ga), divisionAbbrev = None,
      conferenceAbbrev = None\<rparr>"




text \<open>
  Standings that have no team \<open>TOR\<close> (but a \<open>tor\<close>), and standings that have two
  records of \<open>TOR\<close>, after one of another team.
\<close>

definition season_without_tor :: document where
  "season_without_tor =
     standings_of [mk_standing ''tor'' 82 40 32 10 250 240, mk_standing ''MTL'' 82 30 42 10 220 260]"

definition season_with_tor :: document where
  "season_with_tor =
     standings_of [mk_standing ''MTL'' 82 40 31 11 245 265, mk_standing ''TOR'' 82 52 26 4 268 231,
                   mk_standing ''TOR'' 1 0 1 0 0 9]"

definition two_seasons :: upstream where
  "two_seasons n url = Inr (if n = 0 then season_without_tor else season_with_tor)"



text \<open>An argument dictionary with no key.\<close>

definition no_arguments :: arguments where
  "no_arguments =
     \<lparr>arg_date = None, arg_gameId = None, arg_division = None, arg_conference = None,
      arg_teamAbbrev = None, arg_season = None, arg_category = None, arg_limit = None,
      arg_team1 = None, arg_team2 = None, arg_seasons = None\<rparr>"

text \<open>An upstream that fails every request with a connection error.\<close>

definition unreachable :: upstream where
  "unreachable n url = Inl (FetchError ''All connection attempts failed'')"

section \<open>Rendering of integers\<close>

lemma str_nat_digit: "n < 10 \<Longrightarrow> str_nat n = [digit_char n]"
  by simp

lemma str_nat_step: "10 \<le> n \<Longrightarrow> str_nat n = str_nat (n div 10) @ [digit_char (n mod 10)]"
  by simp

lemmas str_nat_unfold = str_nat.simps

declare str_nat.simps [simp del]

lemma str_nat_nonempty: "str_nat n \<noteq> []"
  by (cases "n < 10") (simp_all add: str_nat_digit str_nat_step)

text \<open>What evaluates the renderings of concrete integers.\<close>

lemmas render_simps = str_int_def str_nat_unfold digit_char_def

text \<open>The recursion of \<open>bit_length\<close> is unfolded only where it is asked for.\<close>

lemmas bit_length_unfold = bit_length.simps

declare bit_length.simps [simp del]

section \<open>Season identifiers\<close>

text \<open>
  C7. For every string, \<open>format_season\<close> returns the first four characters, a hyphen
  and the last four characters when the string has exactly eight characters, and the
  string itself for every other length. The function is total: no input makes it fail.
\<close>

theorem format_season_spec:
  "(length s = 8 \<longrightarrow> format_season s = take 4 s @ ''-'' @ drop (length s - 4) s) \<and>
   (length s \<noteq> 8 \<longrightarrow> format_season s = s)"
  by (simp add: format_season_def)

theorem format_season_spec_witness:
  "format_season ''20242025'' = ''2024-2025'' \<and> format_season ''2024'' = ''2024''"
  using format_season_spec [of "''20242025''"] format_season_spec [of "''2024''"]
  by simp

text \<open>
  C8. For every clock reading with year \<open>Y\<close> and month \<open>m\<close>, the current season
  identifier is the decimal rendering of \<open>Y\<close> followed by that of \<open>Y + 1\<close> when
  \<open>m \<ge> 10\<close>, and that of \<open>Y - 1\<close> followed by that of \<open>Y\<close> when \<open>m < 10\<close>.
\<close>

theorem get_current_season_spec:
  "(month now \<ge> 10 \<longrightarrow>
      get_current_season now = str_int (year now) @ str_int (year now + 1)) \<and>
   (month now < 10 \<longrightarrow>
      get_current_season now = str_int (year now - 1) @ str_int (year now))"
  by (simp add: get_current_season_def Let_def)

theorem get_current_season_spec_witness:
  "get_current_season \<lparr>year = 2024, month = 10, day = 1\<rparr> = ''20242025'' \<and>
   get_current_season \<lparr>year = 2025, month = 9, day = 30\<rparr> = ''20242025''"
  using get_current_season_spec [of "\<lparr>year = 2024, month = 10, day = 1\<rparr>"]
        get_current_season_spec [of "\<lparr>year = 2025, month = 9, day = 30\<rparr>"]
  by (simp add: render_simps)

section \<open>Formatters on empty input\<close>

text \<open>
  C9. On the empty collection every formatter returns, without raising: the
  standings, skater and goalie tables are the header line and the separator line and
  nothing else, and when the scores request answers with no games (an empty list, or
  no \<open>games\<close> key at all) the tool returns the sentence
  \<open>No games scheduled for this date\<close> in place of a table.
\<close>

theorem formatters_on_empty_input:
  "format_standings [] =
     ''Team | GP | W | L | OT | PTS | GF | GA | DIFF | Div\<newline>'' @
     replicate 70 CHR ''-'' @ ''\<newline>'' \<and>
   format_player_stats float_repr [] category =
     ''Rank | Player | Team | Pos | '' @ upper category @ ''\<newline>'' @
     replicate 60 CHR ''-'' @ ''\<newline>'' \<and>
   format_goalie_stats float_repr [] category =
     Inr (''Rank | Goalie | Team | '' @ upper category @ ''\<newline>'' @
          replicate 60 CHR ''-'' @ ''\<newline>'') \<and>
   (fetch_json up 0 (NHL_API_BASE @ ''/score/'' @ str_or (arg_date args) (isoformat now)) =
      Inr data \<and> get_or (doc_games data) [] = [] \<longrightarrow>
    call_tool float_repr up now ''get_live_games'' args =
      [TextContent ''text'' ''No games scheduled for this date''])"
  by (simp add: format_standings_def format_player_stats_def format_goalie_stats_def
        call_tool_def call_tool_body_def get_todays_scores_def text_result_def)

theorem formatters_on_empty_input_witness:
  "format_standings [] =
     ''Team | GP | W | L | OT | PTS | GF | GA | DIFF | Div\<newline>'' @
     replicate 70 CHR ''-'' @ ''\<newline>'' \<and>
   format_player_stats (\<lambda>x. []) [] ''points'' =
     ''Rank | Player | Team | Pos | POINTS\<newline>'' @ replicate 60 CHR ''-'' @ ''\<newline>'' \<and>
   format_goalie_stats (\<lambda>x. []) [] ''savePctg'' =
     Inr (''Rank | Goalie | Team | SAVEPCTG\<newline>'' @ replicate 60 CHR ''-'' @ ''\<newline>'') \<and>
   call_tool (\<lambda>x. []) (\<lambda>n url. Inr (schedule_of [])) a_clock ''get_live_games''
     no_arguments =
     [TextContent ''text'' ''No games scheduled for this date'']"
  using formatters_on_empty_input [of "\<lambda>x. []" "''points''" "\<lambda>n url. Inr (schedule_of [])"
      no_arguments a_clock "schedule_of []"]
    formatters_on_empty_input [of "\<lambda>x. []" "''savePctg''"]
  by (simp add: fetch_json_def schedule_of_def get_or_def upper_def upper_char_def
        small_letters_def capital_letters_def)

section \<open>The streak\<close>

text \<open>
  The sort of the completed games: the dates descend, the games are the same, and
  games of one date keep the order they had.
\<close>

lemma sort_by_date_desc_sorted:
  "sorted (rev (map (\<lambda>x. get_or (gameDate x) []) (sort_by_date_desc gs)))"
  by (simp add: sort_by_date_desc_def rev_map [symmetric])

lemma sort_by_date_desc_stable:
  "filter (\<lambda>x. get_or (gameDate x) [] = d) (sort_by_date_desc gs) =
   filter (\<lambda>x. get_or (gameDate x) [] = d) gs"
proof -
  have "filter (\<lambda>x. get_or (gameDate x) [] = d) (sort_by_date_desc gs) =
        rev (filter (\<lambda>x. get_or (gameDate x) [] = d) (sort_key (\<lambda>x. get_or (gameDate x) []) (rev gs)))"
    by (simp add: sort_by_date_desc_def rev_filter)
  also have "\<dots> = rev (filter (\<lambda>x. get_or (gameDate x) [] = d) (rev gs))"
    by (simp add: sort_key_stable)
  finally show ?thesis by (simp add: rev_filter)
qed

lemma sort_by_date_desc_same_games:
  "set (sort_by_date_desc gs) = set gs \<and> length (sort_by_date_desc gs) = length gs"
  by (simp add: sort_by_date_desc_def)

text \<open>
  The loop, entered with a streak of \<open>n\<close> games of type \<open>t\<close> and \<open>n\<close> lines
  recorded (\<open>0 < n < 10\<close>): with \<open>s\<close> the number of games at the front of the list whose
  result is \<open>t\<close>, the streak grows to \<open>min 10 (n + s)\<close>, and the lines of the first
  \<open>min (10 - n) (s + 1)\<close> games are recorded: those of the streak, and the one that
  broke it.
\<close>

lemma streak_loop_running:
  assumes "0 < n" "n < 10" "length r = n"
  shows "streak_loop team gs (int n, t, r) =
     (int (min 10 (n + length (takeWhile (\<lambda>g. game_result team g = t) gs))), t,
      r @ map (result_line team)
            (take (min (10 - n) (Suc (length (takeWhile (\<lambda>g. game_result team g = t) gs)))) gs))"
  using assms
proof (induction gs arbitrary: n r)
  case Nil
  then show ?case by simp
next
  case (Cons g gs)
  show ?case
  proof (cases "game_result team g = t")
    case False
    with Cons.prems show ?thesis by (simp add: Let_def)
  next
    case True
    show ?thesis
    proof (cases "n = 9")
      case True
      with \<open>game_result team g = t\<close> Cons.prems show ?thesis by (simp add: Let_def)
    next
      case False
      with Cons.prems have n: "0 < Suc n" "Suc n < 10" "length (r @ [result_line team g]) = Suc n"
        by simp_all
      have "streak_loop team (g # gs) (int n, t, r) =
            streak_loop team gs (int (Suc n), t, r @ [result_line team g])"
        using True Cons.prems False by (simp add: Let_def add.commute)
      also note Cons.IH [OF n]
      finally have step: "streak_loop team (g # gs) (int n, t, r) =
          (int (min 10 (Suc n + length (takeWhile (\<lambda>g. game_result team g = t) gs))), t,
           (r @ [result_line team g]) @ map (result_line team)
             (take (min (10 - Suc n) (Suc (length (takeWhile (\<lambda>g. game_result team g = t) gs)))) gs))" .
      have m: "min (10 - n) (Suc (Suc k)) = Suc (min (10 - Suc n) (Suc k))" for k
        using Cons.prems by arith
      show ?thesis unfolding step using True by (simp add: m)
    qed
  qed
qed

text \<open>The loop as \<open>analyze_streak\<close> starts it, on a list that is not empty.\<close>

lemma streak_loop_result:
  "streak_loop team (g # gs) (0, [], []) =
     (int (min 10 (length (takeWhile (\<lambda>x. game_result team x = game_result team g) (g # gs)))),
      game_result team g,
      map (result_line team)
        (take (min 10 (Suc (length (takeWhile (\<lambda>x. game_result team x = game_result team g) (g # gs)))))
           (g # gs)))"
proof -
  have "streak_loop team (g # gs) (0, [], []) =
        streak_loop team gs (int 1, game_result team g, [result_line team g])"
    by (simp add: Let_def)
  also have "\<dots> = (int (min 10 (1 + length (takeWhile (\<lambda>x. game_result team x = game_result team g) gs))),
      game_result team g,
      [result_line team g] @ map (result_line team)
        (take (min (10 - 1) (Suc (length (takeWhile (\<lambda>x. game_result team x = game_result team g) gs)))) gs))"
    by (rule streak_loop_running) simp_all
  finally show ?thesis by (simp add: min_def)
qed

lemma game_result_eq_iff:
  "(game_result team x = game_result team g) = (won team x = won team g)"
  by (simp add: game_result_def)

lemma game_result_W: "(game_result team g = ''W'') = (opp_score team g < team_score team g)"
  by (simp add: game_result_def won_def)

text \<open>
  What \<open>analyze_streak\<close> returns when the schedule arrives and has a completed game:
  \<open>g # gs\<close> are the completed games, most recent first.
\<close>

lemma analyze_streak_report:
  assumes "get_team_schedule up 0 now team_abbrev None = Inr schedule"
      and "sort_by_date_desc (filter is_completed (get_or (doc_games schedule) [])) = g # gs"
  shows "analyze_streak up now team_abbrev =
     team_abbrev @ '' Current Streak: '' @
     str_int (int (min 10 (length (takeWhile (\<lambda>x. won team_abbrev x = won team_abbrev g) (g # gs))))) @
     (if opp_score team_abbrev g < team_score team_abbrev g then '' game winning streak''
      else '' game losing streak'') @
     ''\<newline>\<newline>Last 10 games:\<newline>'' @
     join ''\<newline>'' (map (result_line team_abbrev)
        (take (min 10 (Suc (length (takeWhile (\<lambda>x. won team_abbrev x = won team_abbrev g) (g # gs)))))
           (g # gs)))"
proof -
  have ne: "get_or (doc_games schedule) [] \<noteq> []"
    using assms(2) by (auto simp: sort_by_date_desc_def)
  have "analyze_streak up now team_abbrev =
        streak_report team_abbrev (streak_loop team_abbrev (g # gs) (0, [], []))"
    using assms ne by (simp add: analyze_streak_def analyze_streak_body_def Let_def)
  then show ?thesis
    unfolding streak_loop_result game_result_eq_iff
    by (simp add: streak_report_def game_result_W)
qed

text \<open>
  C2. When the schedule arrives and has a completed game, the header of the report
  gives the streak as the number of games at the front of the completed games (most
  recent first) whose result is that of the most recent one, capped at 10, and calls
  it winning when the most recent game was won and losing otherwise. A game is won
  exactly when the team's score is strictly greater than the opponent's: equal scores
  are a loss, and no score makes the classification fail.
\<close>

theorem streak_count_and_header:
  assumes "get_team_schedule up 0 now team_abbrev None = Inr schedule"
      and "sort_by_date_desc (filter is_completed (get_or (doc_games schedule) [])) = g # gs"
  shows "analyze_streak up now team_abbrev =
     team_abbrev @ '' Current Streak: '' @
     str_int (int (min 10 (length (takeWhile (\<lambda>x. won team_abbrev x = won team_abbrev g) (g # gs))))) @
     (if won team_abbrev g then '' game winning streak'' else '' game losing streak'') @
     ''\<newline>\<newline>Last 10 games:\<newline>'' @
     join ''\<newline>'' (map (result_line team_abbrev)
        (take (min 10 (Suc (length (takeWhile (\<lambda>x. won team_abbrev x = won team_abbrev g) (g # gs)))))
           (g # gs))) \<and>
     won team_abbrev x = (opp_score team_abbrev x < team_score team_abbrev x) \<and>
     game_result team_abbrev x = (if won team_abbrev x then ''W'' else ''L'') \<and>
     (team_score team_abbrev x = opp_score team_abbrev x \<longrightarrow> game_result team_abbrev x = ''L'')"
  using analyze_streak_report [OF assms]
  by (simp add: game_result_def won_def)

theorem streak_count_and_header_witness:
  "analyze_streak (\<lambda>n url. Inr wwl_schedule) a_clock ''AAA'' =
     ''AAA Current Streak: 2 game winning streak\<newline>\<newline>Last 10 games:\<newline>W 3-2 vs BBB\<newline>W 4-1 vs CCC\<newline>L 0-2 vs BBB''"
  using streak_count_and_header [of "\<lambda>n url. Inr wwl_schedule" a_clock "''AAA''" wwl_schedule
      "mk_game ''FINAL'' ''2024-10-03'' ''AAA'' 3 ''BBB'' 2"
      "[mk_game ''OFF'' ''2024-10-02'' ''CCC'' 1 ''AAA'' 4,
        mk_game ''OFF'' ''2024-10-01'' ''AAA'' 0 ''BBB'' 2]"]
  by (simp add: get_team_schedule_def fetch_json_def wwl_schedule_def schedule_of_def mk_game_def
        get_or_def sort_by_date_desc_def is_completed_def won_def team_score_def opp_score_def
        is_home_def result_line_def game_result_def opp_team_def render_simps)

text \<open>
  C1. The specification has the block under \<open>Last 10 games:\<close> list the first \<open>min(10, N)\<close>
  of the \<open>N\<close> completed games, wherever the streak broke. The loop leaves at the first
  game whose result differs from the streak's, after recording its line, so the block
  ends there: on three completed games that are, most recent first, a win, a loss and
  a win, it lists two games, not three.
\<close>

theorem recent_results_end_at_streak_break:
  "analyze_streak (\<lambda>n url. Inr wlw_schedule) a_clock ''AAA'' =
     ''AAA Current Streak: 1 game winning streak\<newline>\<newline>Last 10 games:\<newline>W 3-2 vs BBB\<newline>L 1-4 vs BBB'' \<and>
   length (sort_by_date_desc (filter is_completed (get_or (doc_games wlw_schedule) []))) = 3"
  by (simp add: analyze_streak_def analyze_streak_body_def get_team_schedule_def fetch_json_def
        wlw_schedule_def schedule_of_def mk_game_def get_or_def sort_by_date_desc_def
        is_completed_def won_def team_score_def opp_score_def is_home_def streak_report_def
        result_line_def game_result_def opp_team_def render_simps Let_def)

section \<open>Head to head\<close>

lemma completed_state_iff:
  "(get_or (gameState g) [] = ''OFF'' \<or> get_or (gameState g) [] = ''FINAL'') = is_completed g"
  by (cases "gameState g") (simp_all add: get_or_def is_completed_def)

text \<open>
  The loop adds to \<open>team1_wins\<close> the completed games team1 won, to \<open>team2_wins\<close> the
  other completed games, and to \<open>results\<close> one line per game, in the order of the list.
\<close>

lemma matchup_loop_result:
  "matchup_loop team1 team2 gs (w1, w2, rs) =
     (w1 + int (length (filter (\<lambda>g. is_completed g \<and> team2_score team1 g < team1_score team1 g) gs)),
      w2 + int (length (filter (\<lambda>g. is_completed g \<and> \<not> team2_score team1 g < team1_score team1 g) gs)),
      rs @ map (matchup_line team1 team2) gs)"
proof (induction gs arbitrary: w1 w2 rs)
  case Nil
  show ?case by simp
next
  case (Cons g gs)
  show ?case
    using completed_state_iff [of g]
    by (simp add: Cons.IH matchup_line_def Let_def)
qed

text \<open>
  C3. When team1's schedule arrives and holds a game between the two teams, the
  report counts, among the completed matchups, a win for team1 where team1's score
  exceeds team2's (whichever of them is at home), prints the tally as
  \<open>team1 W-L team2\<close>, and prints one line per matchup in the order of the schedule.
\<close>

theorem compare_teams_report:
  assumes "get_team_schedule up 0 now team1 season = Inr schedule1"
      and "filter (is_matchup team1 team2) (get_or (doc_games schedule1) []) = m # ms"
  shows "compare_teams_head_to_head up now team1 team2 season =
     ''Head-to-Head: '' @ team1 @ '' vs '' @ team2 @ ''\<newline>\<newline>'' @
     ''Season Series: '' @ team1 @ '' '' @
     str_int (int (length (filter (\<lambda>g. is_completed g \<and> team2_score team1 g < team1_score team1 g) (m # ms)))) @
     ''-'' @
     str_int (int (length (filter (\<lambda>g. is_completed g \<and> \<not> team2_score team1 g < team1_score team1 g) (m # ms)))) @
     '' '' @ team2 @ ''\<newline>\<newline>'' @
     ''Games:\<newline>'' @ join ''\<newline>'' (map (matchup_line team1 team2) (m # ms))"
proof -
  have ne: "get_or (doc_games schedule1) [] \<noteq> []"
    using assms(2) by auto
  have "compare_teams_head_to_head up now team1 team2 season =
        head_to_head_report team1 team2 (matchup_loop team1 team2 (m # ms) (0, 0, []))"
    using assms ne by (simp add: compare_teams_head_to_head_def compare_teams_body_def Let_def)
  then show ?thesis
    unfolding matchup_loop_result by (simp add: head_to_head_report_def)
qed

theorem compare_teams_report_witness:
  "compare_teams_head_to_head (\<lambda>n url. Inr tor_schedule) a_clock ''TOR'' ''MTL'' None =
     ''Head-to-Head: TOR vs MTL\<newline>\<newline>Season Series: TOR 1-1 MTL\<newline>\<newline>Games:\<newline>2024-11-05: TOR 3, MTL 2 - TOR WIN\<newline>2024-10-12: TOR 1, MTL 4 - MTL WIN''"
  using compare_teams_report [of "\<lambda>n url. Inr tor_schedule" a_clock "''TOR''" None tor_schedule
      "''MTL''" "mk_game ''OFF'' ''2024-11-05'' ''TOR'' 3 ''MTL'' 2"
      "[mk_game ''FINAL'' ''2024-10-12'' ''MTL'' 4 ''TOR'' 1]"]
  by (simp add: get_team_schedule_def fetch_json_def tor_schedule_def schedule_of_def mk_game_def
        get_or_def is_matchup_def is_completed_def team1_score_def team2_score_def
        matchup_line_def score_text_def render_simps)

text \<open>
  C10. Over the whole loop the two win counters add up to the number of completed
  games; a completed game adds one to exactly one of them; and a completed game with
  equal scores adds one to \<open>team2_wins\<close> and appends a \<open>team2 WIN\<close> line.
\<close>

theorem win_counters:
  "fst (matchup_loop team1 team2 gs (0, 0, [])) +
   fst (snd (matchup_loop team1 team2 gs (0, 0, []))) =
     int (length (filter is_completed gs)) \<and>
   (is_completed g \<longrightarrow>
      (matchup_loop team1 team2 (g # rest) (w1, w2, rs) =
         matchup_loop team1 team2 rest
           (w1 + 1, w2, rs @ [score_text team1 team2 g @ '' - '' @ team1 @ '' WIN'']) \<and>
       team2_score team1 g < team1_score team1 g) \<or>
      (matchup_loop team1 team2 (g # rest) (w1, w2, rs) =
         matchup_loop team1 team2 rest
           (w1, w2 + 1, rs @ [score_text team1 team2 g @ '' - '' @ team2 @ '' WIN'']) \<and>
       \<not> team2_score team1 g < team1_score team1 g)) \<and>
   (is_completed g \<and> team1_score team1 g = team2_score team1 g \<longrightarrow>
      matchup_loop team1 team2 (g # rest) (w1, w2, rs) =
        matchup_loop team1 team2 rest
          (w1, w2 + 1, rs @ [score_text team1 team2 g @ '' - '' @ team2 @ '' WIN'']))"
proof -
  have "length (filter (\<lambda>g. is_completed g \<and> team2_score team1 g < team1_score team1 g) gs) +
        length (filter (\<lambda>g. is_completed g \<and> \<not> team2_score team1 g < team1_score team1 g) gs) =
        length (filter is_completed gs)"
    by (induction gs) auto
  then have sum: "fst (matchup_loop team1 team2 gs (0, 0, [])) +
      fst (snd (matchup_loop team1 team2 gs (0, 0, []))) = int (length (filter is_completed gs))"
    unfolding matchup_loop_result by simp
  have step: "is_completed g \<Longrightarrow> matchup_loop team1 team2 (g # rest) (w1, w2, rs) =
      (if team2_score team1 g < team1_score team1 g
       then matchup_loop team1 team2 rest
              (w1 + 1, w2, rs @ [score_text team1 team2 g @ '' - '' @ team1 @ '' WIN''])
       else matchup_loop team1 team2 rest
              (w1, w2 + 1, rs @ [score_text team1 team2 g @ '' - '' @ team2 @ '' WIN'']))"
    using completed_state_iff [of g] by (simp add: Let_def)
  show ?thesis using sum step by auto
qed

theorem win_counters_witness:
  "matchup_loop ''TOR'' ''MTL'' [mk_game ''FINAL'' ''2024-11-05'' ''TOR'' 2 ''MTL'' 2] (0, 0, []) =
     (0, 1, [''2024-11-05: TOR 2, MTL 2 - MTL WIN''])"
  using win_counters [of "''TOR''" "''MTL''" "[]"
      "mk_game ''FINAL'' ''2024-11-05'' ''TOR'' 2 ''MTL'' 2" "[]" 0 0 "[]"]
  by (simp add: is_completed_def mk_game_def team1_score_def team2_score_def score_text_def
        get_or_def render_simps)

section \<open>Season comparison\<close>






















lemma team_loop_blocks:
  assumes "length docs = length seasons"
      and "\<forall>i<length seasons. up (n + i) (NHL_API_BASE @ ''/standings/'' @ seasons ! i) = Inr (docs ! i)"
  shows "team_loop up t n seasons rs = Inr (rs @ map2 (team_block t) seasons docs)"
  using assms
proof (induction seasons arbitrary: n docs rs)
  case Nil
  then show ?case by simp
next
  case (Cons season rest)
  from Cons.prems(1) obtain d ds where docs: "docs = d # ds" by (cases docs) auto
  have f0: "up n (NHL_API_BASE @ ''/standings/'' @ season) = Inr d"
    using Cons.prems(2) docs by force
  have fs: "\<forall>i<length rest. up (Suc n + i) (NHL_API_BASE @ ''/standings/'' @ rest ! i) = Inr (ds ! i)"
    using Cons.prems(2) docs by force
  have "team_loop up t (Suc n) rest (rs @ [team_block t season d]) =
        Inr ((rs @ [team_block t season d]) @ map2 (team_block t) rest ds)"
    using Cons.prems(1) docs fs by (intro Cons.IH) simp_all
  then show ?case
    using f0 docs by (simp add: get_standings_by_season_def fetch_json_def)
qed



text \<open>What evaluates a division and a rendering on concrete numbers.\<close>

lemmas float_simps = py_truediv_def float_of_int_def round_to_double_def floor_log2_ratio_def
  bit_length_unfold
  round_half_even_def format_f_def zfill_def Let_def

lemma true_division_example: "py_truediv 300 100 = Inr (PyFloat False (3 * 2 ^ 51) (- 51))"
  by (simp add: float_simps)

lemma two_decimals_example: "format_f 2 (PyFloat False (3 * 2 ^ 51) (- 51)) = ''3.00''"
  by (simp add: float_simps render_simps)

text \<open>
  Quotients as Python prints them: a tie goes to the even digit when the double is
  the tie itself (\<open>0.125\<close>, \<open>0.375\<close>), and is decided by the double nearest to the
  quotient otherwise (\<open>1.005\<close> and \<open>2.675\<close> are doubles just below).
\<close>

lemma two_decimals_of_quotients:
  "map_sum id (format_f 2) (py_truediv 1 3) = Inr ''0.33'' \<and>
   map_sum id (format_f 2) (py_truediv 2 3) = Inr ''0.67'' \<and>
   map_sum id (format_f 2) (py_truediv 1 8) = Inr ''0.12'' \<and>
   map_sum id (format_f 2) (py_truediv 3 8) = Inr ''0.38'' \<and>
   map_sum id (format_f 2) (py_truediv 201 200) = Inr ''1.00'' \<and>
   map_sum id (format_f 2) (py_truediv 2675 1000) = Inr ''2.67'' \<and>
   map_sum id (format_f 2) (py_truediv (- 7) 2) = Inr ''-3.50''"
  by (simp add: float_simps render_simps)






text \<open>\<open>find\<close> returns the first element that matches.\<close>

lemma find_first_match:
  "\<forall>x\<in>set pre. \<not> P x \<Longrightarrow> P y \<Longrightarrow> find P (pre @ y # post) = Some y"
  by (induction pre) auto

lemma find_no_match: "\<forall>x\<in>set xs. \<not> P x \<Longrightarrow> find P xs = None"
  by (induction xs) auto

text \<open>
  C5. In per-team mode (a team abbreviation that is not empty), when every request
  is answered, the report has one block per season, in the order of the input. The
  block of a season is made from the first standings record whose default
  abbreviation is the given one, character for character: it gives the record as
  wins-losses-OT, the points, the goals for and against and the goal differential.
  When no record matches, the block ends with \<open>No data found\<close>.
\<close>

theorem per_team_report:
  assumes "t \<noteq> []"
      and "length docs = length seasons"
      and "\<forall>i<length seasons. up i (NHL_API_BASE @ ''/standings/'' @ seasons ! i) = Inr (docs ! i)"
  shows "compare_seasons up seasons (Some t) =
       ''Season Comparison for '' @ t @ '':\<newline>\<newline>'' @
       join ''\<newline>\<newline>'' (map2 (team_block t) seasons docs) \<and>
     ((\<forall>x\<in>set (get_or (doc_standings d) []). Option.bind (teamAbbrev x) default_text \<noteq> Some t) \<longrightarrow>
        team_block t season d = format_season season @ '' - '' @ t @ '': No data found'' \<and>
        sublist ''No data found'' (team_block t season d)) \<and>
     (get_or (doc_standings d) [] = pre @ team # post \<and>
      (\<forall>x\<in>set pre. Option.bind (teamAbbrev x) default_text \<noteq> Some t) \<and>
      Option.bind (teamAbbrev team) default_text = Some t \<longrightarrow>
        team_block t season d =
          format_season season @ '' - '' @ t @ '':\<newline>'' @
          ''  Record: '' @ str_int (get_or (wins team) 0) @ ''-'' @
            str_int (get_or (losses team) 0) @ ''-'' @ str_int (get_or (otLosses team) 0) @
            ''\<newline>'' @
          ''  Points: '' @ str_int (get_or (points team) 0) @ ''\<newline>'' @
          ''  Goals For: '' @ str_int (get_or (goalFor team) 0) @ ''\<newline>'' @
          ''  Goals Against: '' @ str_int (get_or (goalAgainst team) 0) @ ''\<newline>'' @
          ''  Goal Diff: '' @ str_int (get_or (goalDifferential team) 0))"
proof -
  have "team_loop up t 0 seasons [] = Inr ([] @ map2 (team_block t) seasons docs)"
    using team_loop_blocks [OF assms(2), of up 0 t "[]"] assms(3) by simp
  then have out: "compare_seasons up seasons (Some t) =
       ''Season Comparison for '' @ t @ '':\<newline>\<newline>'' @
       join ''\<newline>\<newline>'' (map2 (team_block t) seasons docs)"
    using assms(1) by (simp add: compare_seasons_def compare_seasons_body_def str_or_def)
  have absent: "team_block t season d = format_season season @ '' - '' @ t @ '': No data found''"
    if "\<forall>x\<in>set (get_or (doc_standings d) []). Option.bind (teamAbbrev x) default_text \<noteq> Some t"
    using find_no_match [OF that] by (simp add: team_block_def)
  have sub: "sublist ''No data found'' (format_season season @ '' - '' @ t @ '': No data found'')"
    unfolding sublist_def
    by (rule exI [of _ "format_season season @ '' - '' @ t @ '': ''"], rule exI [of _ "[]"]) simp
  have present: "team_block t season d =
          format_season season @ '' - '' @ t @ '':\<newline>'' @
          ''  Record: '' @ str_int (get_or (wins team) 0) @ ''-'' @
            str_int (get_or (losses team) 0) @ ''-'' @ str_int (get_or (otLosses team) 0) @
            ''\<newline>'' @
          ''  Points: '' @ str_int (get_or (points team) 0) @ ''\<newline>'' @
          ''  Goals For: '' @ str_int (get_or (goalFor team) 0) @ ''\<newline>'' @
          ''  Goals Against: '' @ str_int (get_or (goalAgainst team) 0) @ ''\<newline>'' @
          ''  Goal Diff: '' @ str_int (get_or (goalDifferential team) 0)"
    if "get_or (doc_standings d) [] = pre @ team # post"
      and "\<forall>x\<in>set pre. Option.bind (teamAbbrev x) default_text \<noteq> Some t"
      and "Option.bind (teamAbbrev team) default_text = Some t"
    using find_first_match [of pre "\<lambda>x. Option.bind (teamAbbrev x) default_text = Some t" team post] that
    by (simp add: team_block_def)
  show ?thesis using out absent sub present by auto
qed

theorem per_team_report_witness:
  "compare_seasons two_seasons [''20232024'', ''20242025''] (Some ''TOR'') =
     ''Season Comparison for TOR:\<newline>\<newline>2023-2024 - TOR: No data found\<newline>\<newline>2024-2025 - TOR:\<newline>  Record: 52-26-4\<newline>  Points: 108\<newline>  Goals For: 268\<newline>  Goals Against: 231\<newline>  Goal Diff: 37''"
proof -
  let ?docs = "[season_without_tor, season_with_tor]"
  let ?seasons = "[''20232024'', ''20242025'']"
  have h1: "''TOR'' \<noteq> []" by simp
  have h2: "length ?docs = length ?seasons" by simp
  have h3: "\<forall>i<length ?seasons.
      two_seasons i (NHL_API_BASE @ ''/standings/'' @ ?seasons ! i) = Inr (?docs ! i)"
    by (simp add: two_seasons_def less_Suc_eq)
  note th = per_team_report [where t = "''TOR''" and docs = "?docs" and seasons = "?seasons"
      and up = two_seasons, OF h1 h2 h3, THEN conjunct1]
  show ?thesis
    unfolding th
    by (simp add: team_block_def season_without_tor_def season_with_tor_def standings_of_def
          mk_standing_def get_or_def format_season_def render_simps)
qed

section \<open>Errors\<close>

text \<open>Every branch of the dispatcher that returns gives one text content.\<close>

lemma call_tool_body_text:
  "call_tool_body float_repr up now name args = Inr r \<Longrightarrow> \<exists>s. r = [TextContent ''text'' s]"
  by (auto simp: call_tool_body_def text_result_def Let_def split: if_splits sum.splits option.splits)

lemma call_tool_text: "\<exists>s. call_tool float_repr up now name args = [TextContent ''text'' s]"
proof (cases "call_tool_body float_repr up now name args")
  case (Inl e)
  then show ?thesis by (simp add: call_tool_def text_result_def)
next
  case (Inr r)
  with call_tool_body_text [OF Inr] show ?thesis by (simp add: call_tool_def)
qed

text \<open>A loop over the seasons that returns had every one of its requests answered.\<close>

lemma league_loop_requests:
  "league_loop up n seasons rs = Inr out \<Longrightarrow> i < length seasons \<Longrightarrow>
   \<exists>d. get_standings_by_season up (n + i) (seasons ! i) = Inr d"
proof (induction seasons arbitrary: n rs i)
  case Nil
  then show ?case by simp
next
  case (Cons season rest)
  from Cons.prems(1) obtain d b where
    d: "get_standings_by_season up n season = Inr d"
    and rest: "league_loop up (Suc n) rest (rs @ [b]) = Inr out"
    by (auto split: sum.splits)
  show ?case
  proof (cases i)
    case 0
    with d show ?thesis by simp
  next
    case (Suc j)
    with Cons.prems(2) have "j < length rest" by simp
    from Cons.IH [OF rest this] Suc show ?thesis by simp
  qed
qed

lemma team_loop_requests:
  "team_loop up t n seasons rs = Inr out \<Longrightarrow> i < length seasons \<Longrightarrow>
   \<exists>d. get_standings_by_season up (n + i) (seasons ! i) = Inr d"
proof (induction seasons arbitrary: n rs i)
  case Nil
  then show ?case by simp
next
  case (Cons season rest)
  from Cons.prems(1) obtain d where
    d: "get_standings_by_season up n season = Inr d"
    and rest: "team_loop up t (Suc n) rest (rs @ [team_block t season d]) = Inr out"
    by (auto split: sum.splits)
  show ?case
  proof (cases i)
    case 0
    with d show ?thesis by simp
  next
    case (Suc j)
    with Cons.prems(2) have "j < length rest" by simp
    from Cons.IH [OF rest this] Suc show ?thesis by simp
  qed
qed

lemma compare_seasons_failed_request:
  assumes "i < length seasons" "get_standings_by_season up i (seasons ! i) = Inl e"
  shows "\<exists>e'. compare_seasons_body up seasons t = Inl e'"
proof (cases "compare_seasons_body up seasons t")
  case (Inl e')
  then show ?thesis by blast
next
  case (Inr s)
  then have "(\<exists>out. league_loop up 0 seasons [] = Inr out) \<or>
             (\<exists>out. team_loop up (str_or t []) 0 seasons [] = Inr out)"
    by (auto simp: compare_seasons_body_def split: if_splits sum.splits)
  then have "\<exists>d. get_standings_by_season up (0 + i) (seasons ! i) = Inr d"
    using league_loop_requests [OF _ assms(1)] team_loop_requests [OF _ assms(1)] by blast
  with assms(2) show ?thesis by simp
qed

text \<open>
  The first request of a season comparison that fails ends it, and its exception is
  the one the helper reports.
\<close>

lemma team_loop_first_failure:
  assumes "i < length seasons"
      and "\<forall>j<i. \<exists>d. get_standings_by_season up (n + j) (seasons ! j) = Inr d"
      and "get_standings_by_season up (n + i) (seasons ! i) = Inl e"
  shows "team_loop up t n seasons rs = Inl e"
  using assms
proof (induction seasons arbitrary: n i rs)
  case Nil
  then show ?case by simp
next
  case (Cons season rest)
  show ?case
  proof (cases i)
    case 0
    with Cons.prems(3) show ?thesis by simp
  next
    case (Suc k)
    from Cons.prems(2) Suc obtain d where d: "get_standings_by_season up n season = Inr d"
      by force
    have k: "k < length rest" using Cons.prems(1) Suc by simp
    have before: "\<forall>j<k. \<exists>d. get_standings_by_season up (Suc n + j) (rest ! j) = Inr d"
      using Cons.prems(2) Suc by force
    have fail: "get_standings_by_season up (Suc n + k) (rest ! k) = Inl e"
      using Cons.prems(3) Suc by simp
    from Cons.IH [OF k before fail] d show ?thesis by simp
  qed
qed

lemma league_loop_first_failure:
  assumes "i < length seasons"
      and "\<forall>j<i. \<exists>d b. get_standings_by_season up (n + j) (seasons ! j) = Inr d \<and>
                       league_block (seasons ! j) d = Inr b"
      and "get_standings_by_season up (n + i) (seasons ! i) = Inl e"
  shows "league_loop up n seasons rs = Inl e"
  using assms
proof (induction seasons arbitrary: n i rs)
  case Nil
  then show ?case by simp
next
  case (Cons season rest)
  show ?case
  proof (cases i)
    case 0
    with Cons.prems(3) show ?thesis by simp
  next
    case (Suc k)
    from Cons.prems(2) Suc obtain d b where
      d: "get_standings_by_season up n season = Inr d" "league_block season d = Inr b"
      by force
    have k: "k < length rest" using Cons.prems(1) Suc by simp
    have before: "\<forall>j<k. \<exists>d b. get_standings_by_season up (Suc n + j) (rest ! j) = Inr d \<and>
                       league_block (rest ! j) d = Inr b"
      using Cons.prems(2) Suc by force
    have fail: "get_standings_by_season up (Suc n + k) (rest ! k) = Inl e"
      using Cons.prems(3) Suc by simp
    from Cons.IH [OF k before fail] d show ?thesis by simp
  qed
qed

lemma compare_seasons_first_failure:
  assumes "i < length seasons"
      and "\<forall>j<i. \<exists>d b. get_standings_by_season up j (seasons ! j) = Inr d \<and>
                       league_block (seasons ! j) d = Inr b"
      and "get_standings_by_season up i (seasons ! i) = Inl e"
  shows "compare_seasons up seasons t = ''Error comparing seasons: '' @ exn_str e"
proof -
  have "league_loop up 0 seasons [] = Inl e"
    using league_loop_first_failure [of i seasons up 0 e "[]"] assms by simp
  moreover have "team_loop up (str_or t []) 0 seasons [] = Inl e"
    using team_loop_first_failure [of i seasons up 0 e "str_or t []" "[]"] assms by simp blast
  ultimately show ?thesis
    by (simp add: compare_seasons_def compare_seasons_body_def)
qed

text \<open>
  C6. Whatever the tool name, the arguments and the upstream, \<open>call_tool\<close> returns
  one text content: an exception of its body is returned as the text
  \<open>Error executing {name}: {cause}\<close>, as for a failed request of \<open>get_live_games\<close>
  or a missing \<open>gameId\<close>. The helpers answer a failed request with a text of their
  own, which the dispatcher passes on: \<open>Error analyzing streak: {cause}\<close>,
  \<open>Error comparing teams: {cause}\<close>, and, when any of its requests fails,
  \<open>Error comparing seasons: {cause}\<close>, the cause being that of the first request that
  fails when the seasons before it gave their blocks. The exceptions are those of class
  \<open>Exception\<close>, which is what the two \<open>except\<close> clauses catch.
\<close>

theorem errors_become_text:
  "(\<exists>s. call_tool float_repr up now name args = [TextContent ''text'' s]) \<and>
   (call_tool_body float_repr up now name args = Inl e \<longrightarrow>
      call_tool float_repr up now name args =
        [TextContent ''text'' (''Error executing '' @ name @ '': '' @ exn_str e)]) \<and>
   (get_team_schedule up 0 now team None = Inl e \<longrightarrow>
      analyze_streak up now team = ''Error analyzing streak: '' @ exn_str e) \<and>
   (get_team_schedule up 0 now team1 season = Inl e \<longrightarrow>
      compare_teams_head_to_head up now team1 team2 season =
        ''Error comparing teams: '' @ exn_str e) \<and>
   (i < length seasons \<and> get_standings_by_season up i (seasons ! i) = Inl e \<longrightarrow>
      (\<exists>e'. compare_seasons up seasons t = ''Error comparing seasons: '' @ exn_str e')) \<and>
   (i < length seasons \<and>
    (\<forall>j<i. \<exists>d b. get_standings_by_season up j (seasons ! j) = Inr d \<and>
                   league_block (seasons ! j) d = Inr b) \<and>
    get_standings_by_season up i (seasons ! i) = Inl e \<longrightarrow>
      compare_seasons up seasons t = ''Error comparing seasons: '' @ exn_str e) \<and>
   (get_todays_scores up 0 now (arg_date args) = Inl e \<longrightarrow>
      call_tool float_repr up now ''get_live_games'' args =
        [TextContent ''text'' (''Error executing get_live_games: '' @ exn_str e)]) \<and>
   (arg_gameId args = None \<longrightarrow>
      call_tool float_repr up now ''get_game_details'' args =
        [TextContent ''text''
           (''Error executing get_game_details: '' @ [CHR 0x27] @ ''gameId'' @ [CHR 0x27])]) \<and>
   (arg_teamAbbrev args = Some team \<and> get_team_schedule up 0 now team None = Inl e \<longrightarrow>
      call_tool float_repr up now ''get_team_streak'' args =
        [TextContent ''text'' (''Error analyzing streak: '' @ exn_str e)])"
proof -
  have seasons: "\<exists>e'. compare_seasons up seasons t = ''Error comparing seasons: '' @ exn_str e'"
    if "i < length seasons" "get_standings_by_season up i (seasons ! i) = Inl e"
  proof -
    from compare_seasons_failed_request [OF that] obtain e' where
      "compare_seasons_body up seasons t = Inl e'" by blast
    then have "compare_seasons up seasons t = ''Error comparing seasons: '' @ exn_str e'"
      by (simp add: compare_seasons_def)
    then show ?thesis by blast
  qed
  have streak: "analyze_streak up now team = ''Error analyzing streak: '' @ exn_str e"
    if "get_team_schedule up 0 now team None = Inl e"
    using that by (simp add: analyze_streak_def analyze_streak_body_def)
  have teams: "compare_teams_head_to_head up now team1 team2 season =
        ''Error comparing teams: '' @ exn_str e"
    if "get_team_schedule up 0 now team1 season = Inl e"
    using that by (simp add: compare_teams_head_to_head_def compare_teams_body_def)
  have body: "call_tool float_repr up now name args =
        [TextContent ''text'' (''Error executing '' @ name @ '': '' @ exn_str e)]"
    if "call_tool_body float_repr up now name args = Inl e"
    using that by (simp add: call_tool_def text_result_def)
  have live: "call_tool float_repr up now ''get_live_games'' args =
        [TextContent ''text'' (''Error executing get_live_games: '' @ exn_str e)]"
    if "get_todays_scores up 0 now (arg_date args) = Inl e"
    using that by (simp add: call_tool_def call_tool_body_def text_result_def)
  have key: "call_tool float_repr up now ''get_game_details'' args =
        [TextContent ''text''
           (''Error executing get_game_details: '' @ [CHR 0x27] @ ''gameId'' @ [CHR 0x27])]"
    if "arg_gameId args = None"
    using that by (simp add: call_tool_def call_tool_body_def text_result_def subscript_def)
  have tool: "call_tool float_repr up now ''get_team_streak'' args =
        [TextContent ''text'' (''Error analyzing streak: '' @ exn_str e)]"
    if "arg_teamAbbrev args = Some team" "get_team_schedule up 0 now team None = Inl e"
    using that streak [OF that(2)]
    by (simp add: call_tool_def call_tool_body_def text_result_def subscript_def)
  show ?thesis
    using call_tool_text [of float_repr up now name args] seasons streak teams body live key tool
      compare_seasons_first_failure [of i seasons up e t]
    by blast
qed

theorem errors_become_text_witness:
  "call_tool (\<lambda>x. []) unreachable a_clock ''get_team_streak''
     (no_arguments\<lparr>arg_teamAbbrev := Some ''TOR''\<rparr>) =
     [TextContent ''text'' ''Error analyzing streak: All connection attempts failed''] \<and>
   call_tool (\<lambda>x. []) unreachable a_clock ''get_live_games'' no_arguments =
     [TextContent ''text'' ''Error executing get_live_games: All connection attempts failed''] \<and>
   call_tool (\<lambda>x. []) unreachable a_clock ''get_game_details'' no_arguments =
     [TextContent ''text'' (''Error executing get_game_details: '' @ [CHR 0x27] @ ''gameId'' @ [CHR 0x27])] \<and>
   compare_teams_head_to_head unreachable a_clock ''TOR'' ''MTL'' None =
     ''Error comparing teams: All connection attempts failed'' \<and>
   compare_seasons unreachable [''20242025''] None =
     ''Error comparing seasons: All connection attempts failed''"
proof -
  let ?e = "FetchError ''All connection attempts failed''"
  have sched: "get_team_schedule unreachable 0 a_clock ''TOR'' None = Inl ?e"
    by (simp add: get_team_schedule_def fetch_json_def unreachable_def)
  have scores: "get_todays_scores unreachable 0 a_clock (arg_date no_arguments) = Inl ?e"
    by (simp add: get_todays_scores_def fetch_json_def unreachable_def)
  have nokey: "arg_gameId no_arguments = None"
    by (simp add: no_arguments_def)
  have abbr: "arg_teamAbbrev (no_arguments\<lparr>arg_teamAbbrev := Some ''TOR''\<rparr>) = Some ''TOR''"
    by simp
  note th1 = errors_become_text [where up = unreachable and now = a_clock and team = "''TOR''"
      and e = ?e and args = "no_arguments\<lparr>arg_teamAbbrev := Some ''TOR''\<rparr>"
      and float_repr = "\<lambda>x. []" and ?team1.0 = "''TOR''" and ?team2.0 = "''MTL''" and season = None]
  note th2 = errors_become_text [where up = unreachable and now = a_clock and e = ?e
      and args = no_arguments and float_repr = "\<lambda>x. []"]
  have seasons: "compare_seasons unreachable [''20242025''] None =
     ''Error comparing seasons: All connection attempts failed''"
    by (simp add: compare_seasons_def compare_seasons_body_def str_or_def
          get_standings_by_season_def fetch_json_def unreachable_def)
  show ?thesis
    using th1 th2 sched scores nokey abbr seasons by simp
qed

end
